theory Spec2Isabelle
  imports Main
begin

section \<open>The DOM as the controller sees it\<close>

text \<open>
  The dropdown controller of \<^verbatim>\<open>src/Dropdown.js\<close> touches the document only through a
  handful of operations: an element's \<^verbatim>\<open>tagName\<close> and \<^verbatim>\<open>id\<close>, whether it has a
  \<^verbatim>\<open>focus\<close> method, \<^verbatim>\<open>Node.contains\<close>, \<^verbatim>\<open>document.activeElement\<close>, and the two
  library helpers \<^verbatim>\<open>matches\<close> and \<^verbatim>\<open>querySelectorAll\<close> of dom-helpers. Elements are
  opaque handles compared by identity; the document is a record of these operations.
  \<^verbatim>\<open>querySelectorAll\<close> returns the matching descendants as an array, or throws the
  \<^verbatim>\<open>SyntaxError\<close> of the browser for a selector it rejects (a selector that starts
  with a combinator, for one).
\<close>

datatype error = TypeError | SyntaxError

type_synonym element = nat

record dom =
  tagName :: "element \<Rightarrow> string"
  elementId :: "element \<Rightarrow> string"
  hasFocusMethod :: "element \<Rightarrow> bool"
  contains :: "element \<Rightarrow> element \<Rightarrow> bool"
  matches :: "element \<Rightarrow> string \<Rightarrow> bool"
  qsa :: "element \<Rightarrow> string \<Rightarrow> error + element list"
  activeElement :: "element option"

text \<open>\<^verbatim>\<open>node.contains(other)\<close> where \<^verbatim>\<open>other\<close> may be \<^verbatim>\<open>null\<close>: the DOM answers false.\<close>

definition containsNode :: "dom \<Rightarrow> element \<Rightarrow> element option \<Rightarrow> bool" where
  "containsNode d m x = (case x of None \<Rightarrow> False | Some e \<Rightarrow> contains d m e)"

record event =
  key :: string
  target :: element

text \<open>
  What a handler does to the outside world, in order: \<^verbatim>\<open>event.preventDefault()\<close>,
  \<^verbatim>\<open>el.focus()\<close>, a call of the \<^verbatim>\<open>onToggle\<close> prop (its third component is the third
  argument of the call, \<open>None\<close> when the call passes only two), and
  \<^verbatim>\<open>popper.update({element, target, placement, modifiers: {flip: {enabled}}})\<close>.
\<close>

datatype effect =
    PreventDefault event
  | Focus element
  | OnToggle bool event "string option"
  | PopperUpdate element element "string option" bool

text \<open>
  The outcome of an effectful call: \<open>Inr\<close> the value it returns, or \<open>Inl (e, es)\<close> when
  it throws \<open>e\<close> after having performed the effects \<open>es\<close>.
\<close>

type_synonym 'a outcome = "(error \<times> effect list) + 'a"

section \<open>Props, state and the component instance\<close>

text \<open>
  \<^verbatim>\<open>drop\<close> is a string or absent; \<^verbatim>\<open>show\<close>, \<^verbatim>\<open>alignRight\<close> and \<^verbatim>\<open>flip\<close> are only ever
  tested for truthiness (or negated), so they are booleans here, an absent prop being
  false.
\<close>

record props =
  drop_prop :: "string option"
  itemSelector :: string
  alignRight :: bool
  show_prop :: bool
  flip_prop :: bool

text \<open>
  \<^verbatim>\<open>this.state\<close>: \<^verbatim>\<open>placement\<close> and \<^verbatim>\<open>lastShow\<close> are absent until the first
  \<^verbatim>\<open>getDerivedStateFromProps\<close>; the \<open>ctx_\<close> fields are the data fields of
  \<^verbatim>\<open>state.dropdownContext\<close>. A position result is opaque; \<open>None\<close> stands for the empty
  object \<^verbatim>\<open>{}\<close>.
\<close>

record state =
  placement :: "string option"
  lastShow :: bool
  popper :: "nat option"
  ctx_popper :: "nat option"
  ctx_alignRight :: bool
  ctx_show :: bool
  ctx_toggleId :: "string option"

record dropdown =
  props :: props
  state :: state
  focusInDropdown :: bool
  toggle :: "element option"
  menu :: "element option"

section \<open>The regular expression \<^verbatim>\<open>/input|textarea/i\<close>\<close>

text \<open>
  \<^verbatim>\<open>RegExp.prototype.test\<close> with an unanchored pattern searches every position of the
  subject; with the \<^verbatim>\<open>i\<close> flag and no \<^verbatim>\<open>u\<close> flag a pattern letter matches exactly its
  two ASCII cases.
\<close>

definition asciiUpper :: "char \<Rightarrow> char" where
  "asciiUpper c =
     (case map_of (zip ''abcdefghijklmnopqrstuvwxyz'' ''ABCDEFGHIJKLMNOPQRSTUVWXYZ'') c of
        None \<Rightarrow> c
      | Some u \<Rightarrow> u)"

fun matchesAt :: "string \<Rightarrow> string \<Rightarrow> bool" where
  "matchesAt [] s = True"
| "matchesAt (p # ps) [] = False"
| "matchesAt (p # ps) (c # cs) = (asciiUpper p = asciiUpper c \<and> matchesAt ps cs)"

fun regexTest :: "string list \<Rightarrow> string \<Rightarrow> bool" where
  "regexTest alts [] = list_ex (\<lambda>a. matchesAt a []) alts"
| "regexTest alts (c # cs) = (list_ex (\<lambda>a. matchesAt a (c # cs)) alts \<or> regexTest alts cs)"

definition isInputTag :: "string \<Rightarrow> bool" where
  "isInputTag tag = regexTest [''input'', ''textarea''] tag"

section \<open>Array helpers\<close>

text \<open>\<^verbatim>\<open>Array.prototype.indexOf\<close>: the first index holding the element, \<open>-1\<close> on a miss.\<close>

fun indexOf :: "'a list \<Rightarrow> 'a \<Rightarrow> int" where
  "indexOf [] x = -1"
| "indexOf (y # ys) x =
     (if y = x then 0 else (let r = indexOf ys x in if r < 0 then -1 else r + 1))"

text \<open>\<^verbatim>\<open>items[i]\<close> for an integer \<open>i\<close>: \<^verbatim>\<open>undefined\<close> (here \<open>None\<close>) outside the array.\<close>

definition at :: "'a list \<Rightarrow> int \<Rightarrow> 'a option" where
  "at xs i = (if 0 \<le> i \<and> i < int (length xs) then Some (xs ! nat i) else None)"

text \<open>The idiom \<^verbatim>\<open>if (x && x.focus) x.focus()\<close>.\<close>

definition focusIf :: "dom \<Rightarrow> element option \<Rightarrow> effect list" where
  "focusIf d x =
     (case x of None \<Rightarrow> [] | Some e \<Rightarrow> if hasFocusMethod d e then [Focus e] else [])"

section \<open>The Dropdown class\<close>

definition getDerivedStateFromProps :: "props \<Rightarrow> state \<Rightarrow> state" where
  "getDerivedStateFromProps p prevState =
     (let placement0 = (if alignRight p then ''bottom-end'' else ''bottom-start'');
          placement1 = (if drop_prop p = Some ''up''
                        then (if alignRight p then ''top-end'' else ''top-start'')
                        else placement0);
          placement2 = (if drop_prop p = Some ''right'' then ''right-start'' else placement1);
          placement3 = (if drop_prop p = Some ''left'' then ''left-start'' else placement2)
      in prevState\<lparr>placement := Some placement3,
                    lastShow := ctx_show prevState,
                    ctx_alignRight := alignRight p,
                    ctx_show := show_prop p\<rparr>)"

text \<open>The constructor: \<^verbatim>\<open>_focusInDropdown = false\<close>, no element registered, an empty context.\<close>

definition constructor :: "props \<Rightarrow> dropdown" where
  "constructor p =
     \<lparr>props = p,
      state = \<lparr>placement = None, lastShow = False, popper = None, ctx_popper = None,
               ctx_alignRight = False, ctx_show = False, ctx_toggleId = None\<rparr>,
      focusInDropdown = False, toggle = None, menu = None\<rparr>"

definition updatePosition :: "dropdown \<Rightarrow> effect list" where
  "updatePosition c =
     (case toggle c of
        None \<Rightarrow> []
      | Some t \<Rightarrow>
          (case menu c of
             None \<Rightarrow> []
           | Some m \<Rightarrow> [PopperUpdate m t (placement (state c)) (flip_prop (props c))]))"

text \<open>
  \<^verbatim>\<open>setToggleElement\<close> and \<^verbatim>\<open>setMenuElement\<close> receive the result of
  \<^verbatim>\<open>ReactDOM.findDOMNode(el)\<close>, an element or \<^verbatim>\<open>null\<close>. React queues the \<^verbatim>\<open>setState\<close>
  that stores the toggle's id and runs it after the commit, followed by a re-render with
  the same props; here the id is stored at once (nothing below reads it), and the
  re-render is an update cycle of its own with unchanged props.
\<close>

definition setToggleElement :: "dom \<Rightarrow> element option \<Rightarrow> dropdown \<Rightarrow> dropdown \<times> effect list" where
  "setToggleElement d el c =
     (let c1 = c\<lparr>toggle := el\<rparr>;
          c2 = (case el of
                  None \<Rightarrow> c1
                | Some t \<Rightarrow> c1\<lparr>state := (state c1)\<lparr>ctx_toggleId := Some (elementId d t)\<rparr>\<rparr>)
      in (c2, if show_prop (props c2) then updatePosition c2 else []))"

definition setMenuElement :: "element option \<Rightarrow> dropdown \<Rightarrow> dropdown \<times> effect list" where
  "setMenuElement el c =
     (let c1 = c\<lparr>menu := el\<rparr>
      in (c1, if show_prop (props c1) then updatePosition c1 else []))"

definition componentDidMount :: "dropdown \<Rightarrow> effect list" where
  "componentDidMount c = (if show_prop (props c) then updatePosition c else [])"

text \<open>
  \<^verbatim>\<open>getNextFocusedChild\<close> returns \<^verbatim>\<open>null\<close> or \<^verbatim>\<open>undefined\<close> (\<open>None\<close>) or an element; it
  throws what \<^verbatim>\<open>qsa\<close> throws.
\<close>

definition getNextFocusedChild ::
    "dom \<Rightarrow> dropdown \<Rightarrow> element \<Rightarrow> int \<Rightarrow> error + element option" where
  "getNextFocusedChild d c current offset =
     (case menu c of
        None \<Rightarrow> Inr None
      | Some m \<Rightarrow>
          (case qsa d m (itemSelector (props c)) of
             Inl e \<Rightarrow> Inl e
           | Inr items \<Rightarrow>
               (let index0 = indexOf items current + offset;
                    index1 = max 0 (min index0 (int (length items)))
                in Inr (at items index1))))"

definition hasMenuRole :: "dom \<Rightarrow> dropdown \<Rightarrow> bool" where
  "hasMenuRole d c = (case menu c of None \<Rightarrow> False | Some m \<Rightarrow> matches d m ''[role=menu]'')"

definition focus :: "dom \<Rightarrow> dropdown \<Rightarrow> effect list" where
  "focus d c = focusIf d (toggle c)"

text \<open>\<^verbatim>\<open>maybeFocusFirst\<close> has no effect before its \<^verbatim>\<open>qsa\<close> call, which may throw.\<close>

definition maybeFocusFirst :: "dom \<Rightarrow> dropdown \<Rightarrow> error + effect list" where
  "maybeFocusFirst d c =
     (if \<not> hasMenuRole d c then Inr []
      else (case menu c of
              None \<Rightarrow> Inr []
            | Some m \<Rightarrow>
                (case qsa d m (itemSelector (props c)) of
                   Inl e \<Rightarrow> Inl e
                 | Inr items \<Rightarrow> Inr (focusIf d (at items 0)))))"

text \<open>
  \<^verbatim>\<open>toggleOpen(event)\<close> calls \<^verbatim>\<open>this.props.onToggle(show, event)\<close>: two arguments. The
  module exports the class wrapped by \<^verbatim>\<open>uncontrollable\<close>, which always passes an
  \<^verbatim>\<open>onToggle\<close> function.
\<close>

definition toggleOpen :: "dropdown \<Rightarrow> event \<Rightarrow> effect list" where
  "toggleOpen c ev = [OnToggle (\<not> show_prop (props c)) ev None]"

definition handleClick :: "dropdown \<Rightarrow> event \<Rightarrow> effect list" where
  "handleClick c ev = toggleOpen c ev"

text \<open>
  The class body declares no member \<^verbatim>\<open>handleClose\<close> (neither a method nor a class
  field), and \<^verbatim>\<open>React.Component\<close> has none: \<^verbatim>\<open>this.handleClose\<close> evaluates to
  \<^verbatim>\<open>undefined\<close>, and calling it throws a \<^verbatim>\<open>TypeError\<close>.
\<close>

definition handleClose :: "(dropdown \<Rightarrow> event \<Rightarrow> effect list) option" where
  "handleClose = None"

text \<open>
  The condition of the first \<^verbatim>\<open>if\<close> of \<^verbatim>\<open>handleKeyDown\<close>, with JavaScript's
  short-circuit evaluation: \<^verbatim>\<open>this.menu.contains(target)\<close> is evaluated only for an input
  target and a key that is neither a space nor Escape, and throws when \<^verbatim>\<open>this.menu\<close> is
  \<^verbatim>\<open>undefined\<close> or \<^verbatim>\<open>null\<close>.
\<close>

definition ignoredInput :: "dom \<Rightarrow> dropdown \<Rightarrow> event \<Rightarrow> error + bool" where
  "ignoredInput d c ev =
     (if \<not> isInputTag (tagName d (target ev)) then Inr False
      else if key ev = '' '' then Inr True
      else if key ev = ''Escape'' then Inr False
      else (case menu c of
              None \<Rightarrow> Inl TypeError
            | Some m \<Rightarrow> Inr (contains d m (target ev))))"

text \<open>Effects performed before a call, put in front of the call's outcome.\<close>

definition andThen :: "effect list \<Rightarrow> effect list outcome \<Rightarrow> effect list outcome" where
  "andThen es r = (case r of Inl (e, fs) \<Rightarrow> Inl (e, es @ fs) | Inr fs \<Rightarrow> Inr (es @ fs))"

text \<open>
  The \<^verbatim>\<open>switch (key)\<close> of \<^verbatim>\<open>handleKeyDown\<close>. ArrowUp computes the next item before it
  calls \<^verbatim>\<open>preventDefault\<close>; ArrowDown calls \<^verbatim>\<open>preventDefault\<close> first.
\<close>

definition keySwitch :: "dom \<Rightarrow> dropdown \<Rightarrow> event \<Rightarrow> effect list outcome" where
  "keySwitch d c ev =
     (if key ev = ''ArrowUp'' then
        (case getNextFocusedChild d c (target ev) (-1) of
           Inl e \<Rightarrow> Inl (e, [])
         | Inr next \<Rightarrow> Inr (focusIf d next @ [PreventDefault ev]))
      else if key ev = ''ArrowDown'' then
        andThen [PreventDefault ev]
          (if \<not> show_prop (props c) then Inr (toggleOpen c ev)
           else (case getNextFocusedChild d c (target ev) 1 of
                   Inl e \<Rightarrow> Inl (e, [])
                 | Inr next \<Rightarrow> Inr (focusIf d next)))
      else if key ev = ''Escape'' \<or> key ev = ''Tab'' then
        (case handleClose of None \<Rightarrow> Inl (TypeError, []) | Some f \<Rightarrow> Inr (f c ev))
      else Inr [])"

definition handleKeyDown :: "dom \<Rightarrow> dropdown \<Rightarrow> event \<Rightarrow> effect list outcome" where
  "handleKeyDown d c ev =
     (case ignoredInput d c ev of
        Inl e \<Rightarrow> Inl (e, [])
      | Inr True \<Rightarrow> Inr []
      | Inr False \<Rightarrow> keySwitch d c ev)"

definition handleUpdate :: "nat \<Rightarrow> dropdown \<Rightarrow> dropdown" where
  "handleUpdate r c = c\<lparr>state := (state c)\<lparr>popper := Some r\<rparr>\<rparr>"

text \<open>
  \<^verbatim>\<open>render\<close>: the focus snapshot, then \<^verbatim>\<open>dropdownContext.popper = popper\<close>. The snapshot
  dereferences \<^verbatim>\<open>this.menu\<close> without a test; \<^verbatim>\<open>render\<close> has no effect on the outside.
\<close>

definition render :: "dom \<Rightarrow> dropdown \<Rightarrow> error + dropdown" where
  "render d c =
     (let publish = (\<lambda>c'. c'\<lparr>state := (state c')\<lparr>ctx_popper := popper (state c')\<rparr>\<rparr>)
      in if lastShow (state c) \<and> \<not> show_prop (props c) then
           (case menu c of
              None \<Rightarrow> Inl TypeError
            | Some m \<Rightarrow>
                Inr (publish (c\<lparr>focusInDropdown := containsNode d m (activeElement d)\<rparr>)))
         else Inr (publish c))"

text \<open>
  \<^verbatim>\<open>componentDidUpdate\<close>: the opening branch, whose \<^verbatim>\<open>maybeFocusFirst\<close> may throw after
  \<^verbatim>\<open>updatePosition\<close> has run, then the closing branch.
\<close>

definition componentDidUpdate ::
    "dom \<Rightarrow> props \<Rightarrow> dropdown \<Rightarrow> (dropdown \<times> effect list) outcome" where
  "componentDidUpdate d prevProps c =
     (let show = show_prop (props c);
          prevOpen = show_prop prevProps;
          opened = (if show \<and> \<not> prevOpen
                    then andThen (updatePosition c)
                           (case maybeFocusFirst d c of
                              Inl e \<Rightarrow> Inl (e, [])
                            | Inr fs \<Rightarrow> Inr fs)
                    else Inr [])
      in case opened of
           Inl x \<Rightarrow> Inl x
         | Inr es \<Rightarrow>
             (if \<not> show \<and> prevOpen then
                (if focusInDropdown c
                 then Inr (c\<lparr>focusInDropdown := False\<rparr>, es @ focus d c)
                 else Inr (c, es))
              else Inr (c, es)))"

section \<open>The update cycle\<close>

text \<open>
  Between \<^verbatim>\<open>render\<close> and \<^verbatim>\<open>componentDidUpdate\<close> React commits the rendered tree and
  runs the ref callbacks of the elements it mounted or unmounted; the rendering layer
  wires them to \<^verbatim>\<open>setToggleElement\<close> and \<^verbatim>\<open>setMenuElement\<close>. The calls of one commit are
  a list, run in order.
\<close>

datatype refCall = SetToggleElement "element option" | SetMenuElement "element option"

fun applyRef :: "dom \<Rightarrow> refCall \<Rightarrow> dropdown \<Rightarrow> dropdown \<times> effect list" where
  "applyRef d (SetToggleElement el) c = setToggleElement d el c"
| "applyRef d (SetMenuElement el) c = setMenuElement el c"

fun commitRefs :: "dom \<Rightarrow> refCall list \<Rightarrow> dropdown \<Rightarrow> dropdown \<times> effect list" where
  "commitRefs d [] c = (c, [])"
| "commitRefs d (r # rs) c =
     (case applyRef d r c of
        (c1, es) \<Rightarrow> (case commitRefs d rs c1 of (c2, fs) \<Rightarrow> (c2, es @ fs)))"

text \<open>
  One update cycle: \<^verbatim>\<open>getDerivedStateFromProps\<close> with the incoming props and the
  previous state, \<^verbatim>\<open>render\<close>, the ref callbacks of the commit, then
  \<^verbatim>\<open>componentDidUpdate\<close> with the previous props. An exception thrown by \<^verbatim>\<open>render\<close> or
  by \<^verbatim>\<open>componentDidUpdate\<close> ends the cycle; the outcome then holds the effects that had
  been performed.
\<close>

definition reactUpdate ::
    "dom \<Rightarrow> props \<Rightarrow> refCall list \<Rightarrow> dropdown \<Rightarrow> (dropdown \<times> effect list) outcome" where
  "reactUpdate d nextProps refs c =
     (let prevProps = props c;
          c1 = c\<lparr>props := nextProps,
                 state := getDerivedStateFromProps nextProps (state c)\<rparr>
      in case render d c1 of
           Inl e \<Rightarrow> Inl (e, [])
         | Inr c2 \<Rightarrow>
             (case commitRefs d refs c2 of
                (c3, es) \<Rightarrow>
                  (case componentDidUpdate d prevProps c3 of
                     Inl (e, fs) \<Rightarrow> Inl (e, es @ fs)
                   | Inr (c4, fs) \<Rightarrow> Inr (c4, es @ fs))))"

text \<open>The \<^verbatim>\<open>focus()\<close> calls among a list of effects, in order.\<close>

fun focusCalls :: "effect list \<Rightarrow> element list" where
  "focusCalls [] = []"
| "focusCalls (Focus e # es) = e # focusCalls es"
| "focusCalls (_ # es) = focusCalls es"

text \<open>The toggle and the menu that are registered once a list of ref callbacks has run.\<close>

fun lastToggle :: "refCall list \<Rightarrow> element option \<Rightarrow> element option" where
  "lastToggle [] t = t"
| "lastToggle (SetToggleElement el # rs) t = lastToggle rs el"
| "lastToggle (SetMenuElement el # rs) t = lastToggle rs t"

fun lastMenu :: "refCall list \<Rightarrow> element option \<Rightarrow> element option" where
  "lastMenu [] m = m"
| "lastMenu (SetToggleElement el # rs) m = lastMenu rs m"
| "lastMenu (SetMenuElement el # rs) m = lastMenu rs el"

section \<open>A concrete dropdown\<close>

text \<open>
  A document with a toggle button \<open>1\<close>, a menu \<open>2\<close> with \<^verbatim>\<open>role=menu\<close> holding the items
  \<open>3\<close>, \<open>4\<close>, \<open>5\<close> and a text input \<open>6\<close>, a text input \<open>7\<close> outside the menu, and a
  panel \<open>8\<close> without a role holding the item \<open>9\<close>. The item \<open>4\<close> has the focus. The
  selector \<^verbatim>\<open>a\<close> matches the items; the selector \<^verbatim>\<open>> a\<close> is one that
  \<^verbatim>\<open>querySelectorAll\<close> rejects.
\<close>

definition demoDom :: dom where
  "demoDom =
     \<lparr>tagName = (\<lambda>e. if e = 1 then ''BUTTON'' else if e = 6 \<or> e = 7 then ''INPUT'' else ''DIV''),
      elementId = (\<lambda>e. if e = 1 then ''dropdown-toggle'' else []),
      hasFocusMethod = (\<lambda>e. True),
      contains = (\<lambda>m e. m = e \<or> (m = 2 \<and> (e = 3 \<or> e = 4 \<or> e = 5 \<or> e = 6)) \<or> (m = 8 \<and> e = 9)),
      matches = (\<lambda>e s. e = 2 \<and> s = ''[role=menu]''),
      qsa = (\<lambda>m s. if s = ''a''
                   then Inr (if m = 2 then [3, 4, 5] else if m = 8 then [9] else [])
                   else if s = ''> a'' then Inl SyntaxError else Inr []),
      activeElement = Some 4\<rparr>"

definition demoProps :: props where
  "demoProps = \<lparr>drop_prop = Some ''down'', itemSelector = ''a'', alignRight = False,
                 show_prop = True, flip_prop = False\<rparr>"

definition demoOpen :: dropdown where
  "demoOpen =
     \<lparr>props = demoProps,
      state = \<lparr>placement = Some ''bottom-start'', lastShow = True, popper = None,
               ctx_popper = None, ctx_alignRight = False, ctx_show = True,
               ctx_toggleId = Some ''dropdown-toggle''\<rparr>,
      focusInDropdown = False, toggle = Some 1, menu = Some 2\<rparr>"

definition demoClosed :: dropdown where
  "demoClosed =
     demoOpen\<lparr>props := demoProps\<lparr>show_prop := False\<rparr>,
              state := (state demoOpen)\<lparr>lastShow := False, ctx_show := False\<rparr>\<rparr>"

definition demoPanel :: dropdown where
  "demoPanel = demoClosed\<lparr>menu := Some 8\<rparr>"

section \<open>Facts about the helpers\<close>

lemma indexOf_lt: "indexOf xs x < int (length xs)"
  by (induction xs) (auto simp: Let_def)

lemma indexOf_miss: "x \<notin> set xs \<Longrightarrow> indexOf xs x = -1"
  by (induction xs) (auto simp: Let_def)

lemma indexOf_hit: "x \<in> set xs \<Longrightarrow> 0 \<le> indexOf xs x \<and> xs ! nat (indexOf xs x) = x"
proof (induction xs)
  case Nil
  then show ?case by simp
next
  case (Cons y ys)
  show ?case
  proof (cases "y = x")
    case True
    then show ?thesis by simp
  next
    case False
    with Cons.prems have "x \<in> set ys" by simp
    with Cons.IH have ih: "0 \<le> indexOf ys x" "ys ! nat (indexOf ys x) = x" by simp_all
    from ih(1) have "nat (indexOf ys x + 1) = Suc (nat (indexOf ys x))" by simp
    with False ih show ?thesis by (simp add: Let_def)
  qed
qed

lemma focusCalls_append: "focusCalls (es @ fs) = focusCalls es @ focusCalls fs"
  by (induction es rule: focusCalls.induct) simp_all

lemma focusCalls_updatePosition: "focusCalls (updatePosition c) = []"
  by (simp add: updatePosition_def split: option.splits)

lemma focusCalls_focusIf:
  "focusCalls (focusIf d x) =
     (case x of None \<Rightarrow> [] | Some e \<Rightarrow> if hasFocusMethod d e then [e] else [])"
  by (simp add: focusIf_def split: option.splits)

lemma render_no_snapshot:
  "\<not> lastShow (state c) \<or> show_prop (props c) \<Longrightarrow>
     render d c = Inr (c\<lparr>state := (state c)\<lparr>ctx_popper := popper (state c)\<rparr>\<rparr>)"
  by (auto simp: render_def)


text \<open>
  The ref callbacks change the registered elements and the toggle id only; they move no
  focus, and while the dropdown is closed they have no effect on the outside at all.
\<close>

lemma applyRef_frame:
  assumes "applyRef d r c = (c', es)"
  shows "props c' = props c \<and> focusInDropdown c' = focusInDropdown c
       \<and> ctx_show (state c') = ctx_show (state c)
       \<and> toggle c' = lastToggle [r] (toggle c) \<and> menu c' = lastMenu [r] (menu c)
       \<and> focusCalls es = [] \<and> (\<not> show_prop (props c) \<longrightarrow> es = [])"
proof (cases r)
  case (SetToggleElement el)
  with assms show ?thesis
    by (cases el)
       (auto simp: setToggleElement_def Let_def focusCalls_updatePosition split: if_splits)
next
  case (SetMenuElement el)
  with assms show ?thesis
    by (auto simp: setMenuElement_def Let_def focusCalls_updatePosition split: if_splits)
qed

lemma commitRefs_frame:
  "commitRefs d rs c = (c', es) \<Longrightarrow>
     props c' = props c \<and> focusInDropdown c' = focusInDropdown c
     \<and> ctx_show (state c') = ctx_show (state c)
     \<and> toggle c' = lastToggle rs (toggle c) \<and> menu c' = lastMenu rs (menu c)
     \<and> focusCalls es = [] \<and> (\<not> show_prop (props c) \<longrightarrow> es = [])"
proof (induction rs arbitrary: c c' es)
  case Nil
  then show ?case by simp
next
  case (Cons r rs)
  obtain c1 es1 where a: "applyRef d r c = (c1, es1)" by (cases "applyRef d r c")
  obtain c2 es2 where b: "commitRefs d rs c1 = (c2, es2)" by (cases "commitRefs d rs c1")
  from Cons.prems a b have eq: "c' = c2" "es = es1 @ es2" by simp_all
  note fa = applyRef_frame [OF a]
  note fb = Cons.IH [OF b]
  have t: "lastToggle (r # rs) (toggle c) = lastToggle rs (lastToggle [r] (toggle c))"
    by (cases r) simp_all
  have m: "lastMenu (r # rs) (menu c) = lastMenu rs (lastMenu [r] (menu c))"
    by (cases r) simp_all
  from fa fb eq t m show ?case by (simp add: focusCalls_append)
qed

text \<open>
  After a completed update cycle, \<^verbatim>\<open>dropdownContext.show\<close> is the \<^verbatim>\<open>show\<close> prop the
  cycle rendered: the next \<^verbatim>\<open>getDerivedStateFromProps\<close> reads its \<^verbatim>\<open>lastShow\<close> from it.
\<close>

lemma componentDidUpdate_frame:
  "componentDidUpdate d prevProps c = Inr (c', es) \<Longrightarrow> props c' = props c \<and> state c' = state c"
  by (auto simp: componentDidUpdate_def Let_def split: sum.splits if_splits)

lemma reactUpdate_tracks_show:
  assumes "reactUpdate d nextProps refs c = Inr (c', es)"
  shows "props c' = nextProps \<and> ctx_show (state c') = show_prop nextProps"
proof -
  define c1 where "c1 = c\<lparr>props := nextProps,
                           state := getDerivedStateFromProps nextProps (state c)\<rparr>"
  from assms obtain c2 where r: "render d c1 = Inr c2"
    by (auto simp: reactUpdate_def Let_def c1_def split: sum.splits)
  obtain c3 es3 where cr: "commitRefs d refs c2 = (c3, es3)" by (cases "commitRefs d refs c2")
  from assms r cr obtain fs where "componentDidUpdate d (props c) c3 = Inr (c', fs)"
    by (auto simp: reactUpdate_def Let_def c1_def split: sum.splits prod.splits)
  then have k: "props c' = props c3 \<and> state c' = state c3"
    by (rule componentDidUpdate_frame)
  from r have "props c2 = nextProps \<and> ctx_show (state c2) = show_prop nextProps"
    by (auto simp: render_def c1_def getDerivedStateFromProps_def Let_def
          split: if_splits option.splits)
  with commitRefs_frame [OF cr] k show ?thesis by simp
qed

text \<open>
  A re-render with unchanged props (the one a \<^verbatim>\<open>setState\<close> causes) is an update cycle
  that passes neither transition test: it has no effect on the outside.
\<close>

lemma rerender_same_props:
  assumes "ctx_show (state c) = show_prop (props c)"
  shows "\<exists>c'. reactUpdate d (props c) [] c = Inr (c', [])"
proof -
  define c1 where "c1 = c\<lparr>props := props c,
                           state := getDerivedStateFromProps (props c) (state c)\<rparr>"
  have "\<not> lastShow (state c1) \<or> show_prop (props c1)"
    using assms by (simp add: c1_def getDerivedStateFromProps_def Let_def)
  then have r: "render d c1 = Inr (c1\<lparr>state := (state c1)\<lparr>ctx_popper := popper (state c1)\<rparr>\<rparr>)"
    by (rule render_no_snapshot)
  have p: "props c1 = props c" by (simp add: c1_def)
  have "componentDidUpdate d (props c) (c1\<lparr>state := (state c1)\<lparr>ctx_popper := popper (state c1)\<rparr>\<rparr>)
          = Inr (c1\<lparr>state := (state c1)\<lparr>ctx_popper := popper (state c1)\<rparr>\<rparr>, [])"
    using p by (simp add: componentDidUpdate_def Let_def)
  with r show ?thesis by (simp add: reactUpdate_def Let_def c1_def)
qed

text \<open>
  The outcome of an update cycle from closed to open: \<^verbatim>\<open>render\<close> takes no snapshot, the
  ref callbacks run, \<^verbatim>\<open>componentDidUpdate\<close> calls \<^verbatim>\<open>updatePosition\<close> and then
  \<^verbatim>\<open>maybeFocusFirst\<close>, whose exception, if any, ends the cycle.
\<close>

lemma open_transition_outcome:
  assumes "\<not> show_prop (props c)" and "show_prop nextProps"
  shows "\<exists>c3 rs. props c3 = nextProps \<and> menu c3 = lastMenu refs (menu c)
           \<and> focusCalls rs = []
           \<and> reactUpdate d nextProps refs c =
               (case maybeFocusFirst d c3 of
                  Inl e \<Rightarrow> Inl (e, rs @ updatePosition c3)
                | Inr fs \<Rightarrow> Inr (c3, rs @ updatePosition c3 @ fs))"
proof -
  define c1 where "c1 = c\<lparr>props := nextProps,
                           state := getDerivedStateFromProps nextProps (state c)\<rparr>"
  define c2 where "c2 = c1\<lparr>state := (state c1)\<lparr>ctx_popper := popper (state c1)\<rparr>\<rparr>"
  have "show_prop (props c1)" using assms(2) by (simp add: c1_def)
  then have r: "render d c1 = Inr c2"
    unfolding c2_def by (simp add: render_no_snapshot)
  obtain c3 rs where cr: "commitRefs d refs c2 = (c3, rs)" by (cases "commitRefs d refs c2")
  have "props c2 = nextProps" "menu c2 = menu c"
    by (simp_all add: c2_def c1_def)
  with commitRefs_frame [OF cr]
  have p3: "props c3 = nextProps" "menu c3 = lastMenu refs (menu c)" "focusCalls rs = []"
    by simp_all
  have cdu: "componentDidUpdate d (props c) c3 =
               (case maybeFocusFirst d c3 of
                  Inl e \<Rightarrow> Inl (e, updatePosition c3)
                | Inr fs \<Rightarrow> Inr (c3, updatePosition c3 @ fs))"
    using assms p3(1)
    by (simp add: componentDidUpdate_def Let_def andThen_def split: sum.splits)
  have "reactUpdate d nextProps refs c =
          (case maybeFocusFirst d c3 of
             Inl e \<Rightarrow> Inl (e, rs @ updatePosition c3)
           | Inr fs \<Rightarrow> Inr (c3, rs @ updatePosition c3 @ fs))"
    using r cr cdu by (simp add: reactUpdate_def Let_def c1_def split: sum.splits)
  with p3 show ?thesis by blast
qed

text \<open>
  When the menu has the role and \<^verbatim>\<open>qsa\<close> rejects the item selector, the opening cycle
  throws that error out of \<^verbatim>\<open>componentDidUpdate\<close>, having moved no focus.
\<close>

lemma open_transition_selector_rejected:
  assumes "\<not> show_prop (props c)" and "show_prop nextProps"
    and "lastMenu refs (menu c) = Some m" and "matches d m ''[role=menu]''"
    and "qsa d m (itemSelector nextProps) = Inl e"
  shows "\<exists>es. reactUpdate d nextProps refs c = Inl (e, es) \<and> focusCalls es = []"
proof -
  from open_transition_outcome [OF assms(1,2), of refs d]
  obtain c3 rs where p: "props c3 = nextProps" "menu c3 = lastMenu refs (menu c)"
      "focusCalls rs = []"
    and u: "reactUpdate d nextProps refs c =
              (case maybeFocusFirst d c3 of
                 Inl e \<Rightarrow> Inl (e, rs @ updatePosition c3)
               | Inr fs \<Rightarrow> Inr (c3, rs @ updatePosition c3 @ fs))"
    by blast
  from p assms(3-5) have "maybeFocusFirst d c3 = Inl e"
    by (simp add: maybeFocusFirst_def hasMenuRole_def)
  with u p(3) show ?thesis
    by (simp add: focusCalls_append focusCalls_updatePosition)
qed

section \<open>Facts about the concrete dropdown\<close>

lemma demoOpen_stable: "reactUpdate demoDom demoProps [] demoOpen = Inr (demoOpen, [])"
  by (simp add: reactUpdate_def getDerivedStateFromProps_def render_def
        componentDidUpdate_def demoOpen_def demoProps_def Let_def)

lemma demoClosed_stable:
  "reactUpdate demoDom (demoProps\<lparr>show_prop := False\<rparr>) [] demoClosed = Inr (demoClosed, [])"
  by (simp add: reactUpdate_def getDerivedStateFromProps_def render_def
        componentDidUpdate_def demoClosed_def demoOpen_def demoProps_def Let_def)

lemma demoOpen_menu: "menu demoOpen = Some 2"
  by (simp add: demoOpen_def)

lemma demoOpen_items: "qsa demoDom 2 (itemSelector (props demoOpen)) = Inr [3, 4, 5]"
  by (simp add: demoOpen_def demoDom_def demoProps_def)

lemma demoOpen_facts:
  "show_prop (props demoOpen)" "ctx_show (state demoOpen)"
  "\<not> show_prop (demoProps\<lparr>show_prop := False\<rparr>)" "toggle demoOpen = Some 1"
  by (simp_all add: demoOpen_def demoProps_def)

lemma demoClosed_facts:
  "\<not> show_prop (props demoClosed)" "show_prop demoProps" "menu demoClosed = Some 2"
  "\<not> show_prop (props demoPanel)" "menu demoPanel = Some 8"
  by (simp_all add: demoClosed_def demoPanel_def demoOpen_def demoProps_def)

lemma demo_focusable: "hasFocusMethod demoDom e"
  by (simp add: demoDom_def)

lemma isInputTag_examples:
  "isInputTag ''INPUT''" "isInputTag ''textarea''" "isInputTag ''TextArea''"
  "isInputTag ''X-INPUT-BOX''" "\<not> isInputTag ''DIV''" "\<not> isInputTag ''BUTTON''"
  "\<not> isInputTag []"
  by (simp_all add: isInputTag_def asciiUpper_def)

lemma demo_tags:
  "isInputTag (tagName demoDom 6)" "isInputTag (tagName demoDom 7)"
  "\<not> isInputTag (tagName demoDom 4)"
  by (simp_all add: demoDom_def isInputTag_def asciiUpper_def)

lemma demo_rejected_selector:
  "\<exists>es. reactUpdate demoDom (demoProps\<lparr>itemSelector := ''> a''\<rparr>) [] demoClosed
          = Inl (SyntaxError, es) \<and> focusCalls es = []"
proof -
  have a: "\<not> show_prop (props demoClosed)" by (rule demoClosed_facts(1))
  have b: "show_prop (demoProps\<lparr>itemSelector := ''> a''\<rparr>)" by (simp add: demoProps_def)
  have m: "lastMenu [] (menu demoClosed) = Some 2" using demoClosed_facts(3) by simp
  have r: "matches demoDom 2 ''[role=menu]''" by (simp add: demoDom_def)
  have q: "qsa demoDom 2 (itemSelector (demoProps\<lparr>itemSelector := ''> a''\<rparr>)) = Inl SyntaxError"
    by (simp add: demoDom_def)
  from open_transition_selector_rejected [OF a b m r q] show ?thesis .
qed

section \<open>Placement\<close>

text \<open>
  C3. The placement that \<^verbatim>\<open>getDerivedStateFromProps\<close> derives is given by the table
  up/not end: top-start, up/end: top-end, right: right-start, left: left-start, anything
  else (down, an unrecognised direction, no direction): bottom-start or bottom-end by
  \<^verbatim>\<open>alignRight\<close>. It depends on the direction and the alignment only, not on the
  previous state or the other props.
\<close>

theorem placement_table:
  "placement (getDerivedStateFromProps p prevState) =
     Some (if drop_prop p = Some ''up'' then (if alignRight p then ''top-end'' else ''top-start'')
           else if drop_prop p = Some ''right'' then ''right-start''
           else if drop_prop p = Some ''left'' then ''left-start''
           else if alignRight p then ''bottom-end'' else ''bottom-start'')"
  by (simp add: getDerivedStateFromProps_def Let_def)

section \<open>The focus navigator\<close>

text \<open>
  C5. With a registered menu for which \<^verbatim>\<open>qsa\<close> returns the \<open>N\<close> elements \<open>items\<close>,
  \<^verbatim>\<open>getNextFocusedChild\<close> computes \<open>indexOf(current) + offset\<close> and clamps it to
  \<open>[0, N]\<close>: a clamped index below \<open>N\<close> yields the item at that index, the clamped
  index \<open>N\<close> yields no element. From index \<open>N - 1\<close> with offset \<open>+1\<close> the result is no
  element; from index \<open>0\<close> with offset \<open>-1\<close> it is the first item.
\<close>

theorem getNextFocusedChild_clamp:
  assumes "menu c = Some m"
    and "qsa d m (itemSelector (props c)) = Inr items"
    and "int (length items) = N"
    and "max 0 (min (indexOf items cur + off) N) = idx"
  shows "0 \<le> idx \<and> idx \<le> N
       \<and> (idx < N \<longrightarrow> getNextFocusedChild d c cur off = Inr (Some (items ! nat idx)))
       \<and> (idx = N \<longrightarrow> getNextFocusedChild d c cur off = Inr None)
       \<and> (indexOf items a = N - 1 \<longrightarrow> getNextFocusedChild d c a 1 = Inr None)
       \<and> (indexOf items b = 0 \<longrightarrow> getNextFocusedChild d c b (-1) = Inr (Some (items ! 0)))"
proof -
  have bounds: "0 \<le> idx \<and> idx \<le> N" using assms(3,4) by auto
  have res: "getNextFocusedChild d c cur off = Inr (at items idx)"
    using assms by (simp add: getNextFocusedChild_def Let_def)
  have last: "indexOf items a = N - 1 \<Longrightarrow> getNextFocusedChild d c a 1 = Inr None"
    using assms(1-3) by (simp add: getNextFocusedChild_def Let_def at_def)
  have first: "getNextFocusedChild d c b (-1) = Inr (Some (items ! 0))" if "indexOf items b = 0"
  proof -
    from that indexOf_lt [of items b] have len: "0 < length items" by simp
    with assms(3) have "0 < N" by auto
    with len that assms(1-3) show ?thesis
      by (simp add: getNextFocusedChild_def Let_def at_def)
  qed
  from bounds res last first assms(3) show ?thesis by (auto simp: at_def)
qed

theorem getNextFocusedChild_clamp_witness:
  "menu demoOpen = Some 2
   \<and> qsa demoDom 2 (itemSelector (props demoOpen)) = Inr [3, 4, 5]
   \<and> indexOf [3, 4, 5 :: nat] 4 = 1
   \<and> getNextFocusedChild demoDom demoOpen 4 1 = Inr (Some 5)
   \<and> indexOf [3, 4, 5 :: nat] 5 = 2
   \<and> getNextFocusedChild demoDom demoOpen 5 1 = Inr None
   \<and> indexOf [3, 4, 5 :: nat] 3 = 0
   \<and> getNextFocusedChild demoDom demoOpen 3 (-1) = Inr (Some 3)"
proof -
  have n: "int (length [3, 4, 5 :: nat]) = 3" by simp
  have i4: "indexOf [3, 4, 5 :: nat] 4 = 1" by simp
  have i5: "indexOf [3, 4, 5 :: nat] 5 = 2" by simp
  have i3: "indexOf [3, 4, 5 :: nat] 3 = 0" by simp
  have idx: "max 0 (min (indexOf [3, 4, 5 :: nat] 4 + 1) 3) = 2" by (simp add: i4)
  note t = getNextFocusedChild_clamp [OF demoOpen_menu demoOpen_items n idx, of 5 3]
  from t i4 i5 i3 demoOpen_menu demoOpen_items show ?thesis by simp
qed

text \<open>
  C10. With a registered menu and a non-empty list of matched items, a current element
  that is not among them has \<open>indexOf = -1\<close>, and that \<open>-1\<close> is the base the offset is
  added to: offset \<open>+1\<close> gives index \<open>0\<close>, offset \<open>-1\<close> gives \<open>-2\<close>, clamped to \<open>0\<close>; both
  return the first item. The miss is not treated as base index \<open>0\<close>: offset \<open>+1\<close> does
  not return the second item.
\<close>

theorem missing_current_base_index:
  assumes "menu c = Some m"
    and "qsa d m (itemSelector (props c)) = Inr items"
    and "items \<noteq> []"
    and "cur \<notin> set items"
  shows "indexOf items cur = -1
       \<and> getNextFocusedChild d c cur 1 = Inr (Some (items ! 0))
       \<and> getNextFocusedChild d c cur (-1) = Inr (Some (items ! 0))
       \<and> (1 < length items \<and> items ! 1 \<noteq> items ! 0 \<longrightarrow>
            getNextFocusedChild d c cur 1 \<noteq> Inr (Some (items ! 1)))"
proof -
  from assms(4) have miss: "indexOf items cur = -1" by (rule indexOf_miss)
  from assms(3) have len: "0 < length items" by simp
  from miss len assms(1,2) show ?thesis
    by (simp add: getNextFocusedChild_def Let_def at_def)
qed

theorem missing_current_base_index_witness:
  "menu demoOpen = Some 2
   \<and> qsa demoDom 2 (itemSelector (props demoOpen)) = Inr [3, 4, 5]
   \<and> (1::nat) \<notin> set [3, 4, 5]
   \<and> indexOf [3, 4, 5 :: nat] 1 = -1
   \<and> getNextFocusedChild demoDom demoOpen 1 1 = Inr (Some 3)
   \<and> getNextFocusedChild demoDom demoOpen 1 (-1) = Inr (Some 3)
   \<and> getNextFocusedChild demoDom demoOpen 1 1 \<noteq> Inr (Some 4)"
proof -
  have ne: "[3, 4, 5 :: nat] \<noteq> []" by simp
  have out: "(1::nat) \<notin> set [3, 4, 5]" by simp
  note t = missing_current_base_index [OF demoOpen_menu demoOpen_items ne out]
  from t out demoOpen_menu demoOpen_items show ?thesis by simp
qed

section \<open>Open and close transitions\<close>



text \<open>
  C7. In an update cycle that takes the dropdown from closed to open: when the menu
  registered at \<^verbatim>\<open>componentDidUpdate\<close> matches \<^verbatim>\<open>[role=menu]\<close> and \<^verbatim>\<open>qsa\<close> returns a
  list for the item selector whose first element is focusable, the cycle completes and
  its \<^verbatim>\<open>focus()\<close> calls are exactly one, on that first element; when no menu is
  registered or the menu does not match \<^verbatim>\<open>[role=menu]\<close>, the cycle completes, whatever
  the item selector, and makes no \<^verbatim>\<open>focus()\<close> call.
\<close>

theorem open_transition_focuses_first:
  assumes "\<not> show_prop (props c)" and "show_prop nextProps"
  shows "(lastMenu refs (menu c) = Some m \<and> matches d m ''[role=menu]''
            \<and> qsa d m (itemSelector nextProps) = Inr (x # xs) \<and> hasFocusMethod d x
            \<longrightarrow> (\<exists>c' es. reactUpdate d nextProps refs c = Inr (c', es) \<and> focusCalls es = [x]))
       \<and> (lastMenu refs (menu c) = None
            \<or> (lastMenu refs (menu c) = Some m \<and> \<not> matches d m ''[role=menu]'')
            \<longrightarrow> (\<exists>c' es. reactUpdate d nextProps refs c = Inr (c', es) \<and> focusCalls es = []))"
proof -
  from open_transition_outcome [OF assms, of refs d]
  obtain c3 rs where p: "props c3 = nextProps" "menu c3 = lastMenu refs (menu c)"
      "focusCalls rs = []"
    and u: "reactUpdate d nextProps refs c =
              (case maybeFocusFirst d c3 of
                 Inl e \<Rightarrow> Inl (e, rs @ updatePosition c3)
               | Inr fs \<Rightarrow> Inr (c3, rs @ updatePosition c3 @ fs))"
    by blast
  have pos: "\<exists>c' es. reactUpdate d nextProps refs c = Inr (c', es) \<and> focusCalls es = [x]"
    if h: "lastMenu refs (menu c) = Some m" "matches d m ''[role=menu]''"
       "qsa d m (itemSelector nextProps) = Inr (x # xs)" "hasFocusMethod d x"
  proof -
    from p h have "maybeFocusFirst d c3 = Inr [Focus x]"
      by (simp add: maybeFocusFirst_def hasMenuRole_def at_def focusIf_def)
    with u have "reactUpdate d nextProps refs c = Inr (c3, rs @ updatePosition c3 @ [Focus x])"
      by simp
    moreover have "focusCalls (rs @ updatePosition c3 @ [Focus x]) = [x]"
      using p(3) by (simp add: focusCalls_append focusCalls_updatePosition)
    ultimately show ?thesis by blast
  qed
  have neg: "\<exists>c' es. reactUpdate d nextProps refs c = Inr (c', es) \<and> focusCalls es = []"
    if h: "lastMenu refs (menu c) = None
           \<or> (lastMenu refs (menu c) = Some m \<and> \<not> matches d m ''[role=menu]'')"
  proof -
    from p h have "maybeFocusFirst d c3 = Inr []"
      by (auto simp: maybeFocusFirst_def hasMenuRole_def)
    with u have "reactUpdate d nextProps refs c = Inr (c3, rs @ updatePosition c3 @ [])"
      by simp
    moreover have "focusCalls (rs @ updatePosition c3 @ []) = []"
      using p(3) by (simp add: focusCalls_append focusCalls_updatePosition)
    ultimately show ?thesis by blast
  qed
  from pos neg show ?thesis by blast
qed

theorem open_transition_focuses_first_witness:
  "\<not> show_prop (props (demoClosed\<lparr>menu := None\<rparr>)) \<and> show_prop demoProps
   \<and> lastMenu [SetMenuElement (Some 2)] (menu (demoClosed\<lparr>menu := None\<rparr>)) = Some 2
   \<and> matches demoDom 2 ''[role=menu]''
   \<and> qsa demoDom 2 (itemSelector demoProps) = Inr [3, 4, 5] \<and> hasFocusMethod demoDom 3
   \<and> (\<exists>c' es. reactUpdate demoDom demoProps [SetMenuElement (Some 2)]
                  (demoClosed\<lparr>menu := None\<rparr>) = Inr (c', es)
               \<and> focusCalls es = [3])
   \<and> \<not> show_prop (props demoPanel)
   \<and> lastMenu [] (menu demoPanel) = Some 8 \<and> \<not> matches demoDom 8 ''[role=menu]''
   \<and> (\<exists>c' es. reactUpdate demoDom (demoProps\<lparr>itemSelector := ''> a''\<rparr>) [] demoPanel
                  = Inr (c', es)
               \<and> focusCalls es = [])"
proof -
  have role: "matches demoDom 2 ''[role=menu]''" and norole: "\<not> matches demoDom 8 ''[role=menu]''"
    and items: "qsa demoDom 2 (itemSelector demoProps) = Inr [3, 4, 5]"
    and foc: "hasFocusMethod demoDom 3"
    by (simp_all add: demoDom_def demoProps_def)
  have cl: "\<not> show_prop (props (demoClosed\<lparr>menu := None\<rparr>))"
    using demoClosed_facts(1) by simp
  have sh: "show_prop (demoProps\<lparr>itemSelector := ''> a''\<rparr>)" by (simp add: demoProps_def)
  have m2: "lastMenu [SetMenuElement (Some 2)] (menu (demoClosed\<lparr>menu := None\<rparr>)) = Some 2"
    by simp
  have m8: "lastMenu [] (menu demoPanel) = Some 8"
    using demoClosed_facts(5) by simp
  note a = open_transition_focuses_first
    [OF cl demoClosed_facts(2), of "[SetMenuElement (Some 2)]" 2 demoDom 3 "[4, 5]"]
  note b = open_transition_focuses_first
    [OF demoClosed_facts(4) sh, of "[]" 8 demoDom 3 "[4, 5]"]
  from a role items foc m2
  have a': "\<exists>c' es. reactUpdate demoDom demoProps [SetMenuElement (Some 2)]
      (demoClosed\<lparr>menu := None\<rparr>) = Inr (c', es) \<and> focusCalls es = [3]"
    by blast
  from b norole m8
  have b': "\<exists>c' es. reactUpdate demoDom (demoProps\<lparr>itemSelector := ''> a''\<rparr>) [] demoPanel
      = Inr (c', es) \<and> focusCalls es = []"
    by blast
  from a' b' role norole items foc cl m2 m8 demoClosed_facts show ?thesis by blast
qed

section \<open>Keyboard dispatch\<close>

text \<open>
  C9. What the input guard of \<^verbatim>\<open>handleKeyDown\<close> does, for every event and whether or not
  a menu is registered. On a target whose tag name matches \<^verbatim>\<open>/input|textarea/i\<close>: a
  space returns at once with no effect; Escape goes to the \<^verbatim>\<open>switch\<close>; any other key
  evaluates \<^verbatim>\<open>this.menu.contains(target)\<close>, which throws a \<^verbatim>\<open>TypeError\<close> when no menu is
  registered, returns at once with no effect when the menu contains the target, and goes
  to the \<^verbatim>\<open>switch\<close> otherwise. On any other target the \<^verbatim>\<open>switch\<close> runs. An ArrowUp or
  ArrowDown that reaches the \<^verbatim>\<open>switch\<close> is never without effect.
\<close>

theorem input_guard:
  "handleKeyDown d c ev =
     (if isInputTag (tagName d (target ev)) \<and> key ev = '' '' then Inr []
      else if isInputTag (tagName d (target ev)) \<and> key ev \<noteq> ''Escape'' then
        (case menu c of
           None \<Rightarrow> Inl (TypeError, [])
         | Some m \<Rightarrow> if contains d m (target ev) then Inr [] else keySwitch d c ev)
      else keySwitch d c ev)
   \<and> (key ev = ''ArrowUp'' \<or> key ev = ''ArrowDown'' \<longrightarrow> keySwitch d c ev \<noteq> Inr [])"
proof -
  have h: "handleKeyDown d c ev =
     (if isInputTag (tagName d (target ev)) \<and> key ev = '' '' then Inr []
      else if isInputTag (tagName d (target ev)) \<and> key ev \<noteq> ''Escape'' then
        (case menu c of
           None \<Rightarrow> Inl (TypeError, [])
         | Some m \<Rightarrow> if contains d m (target ev) then Inr [] else keySwitch d c ev)
      else keySwitch d c ev)"
    by (simp add: handleKeyDown_def ignoredInput_def split: option.splits)
  have k: "key ev = ''ArrowUp'' \<or> key ev = ''ArrowDown'' \<Longrightarrow> keySwitch d c ev \<noteq> Inr []"
    by (auto simp: keySwitch_def andThen_def split: sum.splits)
  from h k show ?thesis by blast
qed

theorem input_guard_witness:
  "isInputTag (tagName demoDom 7) \<and> menu (constructor demoProps) = None
   \<and> handleKeyDown demoDom (constructor demoProps) \<lparr>key = '' '', target = 7\<rparr> = Inr []
   \<and> handleKeyDown demoDom (constructor demoProps) \<lparr>key = ''ArrowDown'', target = 7\<rparr>
       = Inl (TypeError, [])
   \<and> menu demoOpen = Some 2
   \<and> isInputTag (tagName demoDom 6) \<and> contains demoDom 2 6
   \<and> handleKeyDown demoDom demoOpen \<lparr>key = ''ArrowDown'', target = 6\<rparr> = Inr []
   \<and> \<not> contains demoDom 2 7
   \<and> handleKeyDown demoDom demoOpen \<lparr>key = ''ArrowDown'', target = 7\<rparr>
       = Inr [PreventDefault \<lparr>key = ''ArrowDown'', target = 7\<rparr>, Focus 3]"
proof -
  have c6: "contains demoDom 2 6" and c7: "\<not> contains demoDom 2 7"
    by (simp_all add: demoDom_def)
  have m0: "menu (constructor demoProps) = None" by (simp add: constructor_def)
  note s = input_guard [of demoDom "constructor demoProps" "\<lparr>key = '' '', target = 7\<rparr>"]
  note t = input_guard [of demoDom "constructor demoProps" "\<lparr>key = ''ArrowDown'', target = 7\<rparr>"]
  note a = input_guard [of demoDom demoOpen "\<lparr>key = ''ArrowDown'', target = 6\<rparr>"]
  note e = input_guard [of demoDom demoOpen "\<lparr>key = ''ArrowDown'', target = 7\<rparr>"]
  from s demo_tags(2)
  have s': "handleKeyDown demoDom (constructor demoProps) \<lparr>key = '' '', target = 7\<rparr> = Inr []"
    by simp
  from t demo_tags(2) m0
  have t': "handleKeyDown demoDom (constructor demoProps) \<lparr>key = ''ArrowDown'', target = 7\<rparr>
              = Inl (TypeError, [])" by simp
  from a c6 demo_tags(1) demoOpen_menu
  have a': "handleKeyDown demoDom demoOpen \<lparr>key = ''ArrowDown'', target = 6\<rparr> = Inr []" by simp
  have sw: "keySwitch demoDom demoOpen \<lparr>key = ''ArrowDown'', target = 7\<rparr>
              = Inr [PreventDefault \<lparr>key = ''ArrowDown'', target = 7\<rparr>, Focus 3]"
    by (simp add: keySwitch_def andThen_def getNextFocusedChild_def demoOpen_menu demoOpen_items
          demoOpen_facts Let_def at_def focusIf_def demo_focusable)
  from e c7 demo_tags(2) demoOpen_menu sw
  have e': "handleKeyDown demoDom demoOpen \<lparr>key = ''ArrowDown'', target = 7\<rparr>
              = Inr [PreventDefault \<lparr>key = ''ArrowDown'', target = 7\<rparr>, Focus 3]" by simp
  from s' t' a' e' c6 c7 m0 demo_tags demoOpen_menu show ?thesis by blast
qed

text \<open>
  C1. What the code does on Escape and Tab: when the input guard lets the event through,
  the \<^verbatim>\<open>switch\<close> calls \<^verbatim>\<open>this.handleClose(event)\<close>, a member the class never defines, so
  \<^verbatim>\<open>handleKeyDown\<close> throws a \<^verbatim>\<open>TypeError\<close> before any effect: no close is requested and
  \<^verbatim>\<open>onToggle\<close> is not called.
\<close>

theorem escape_tab_call_undefined_handleClose:
  assumes "ignoredInput d c ev = Inr False"
    and "key ev = ''Escape'' \<or> key ev = ''Tab''"
  shows "handleKeyDown d c ev = Inl (TypeError, [])"
  using assms by (auto simp: handleKeyDown_def keySwitch_def handleClose_def)

theorem escape_tab_call_undefined_handleClose_witness:
  "ignoredInput demoDom demoOpen \<lparr>key = ''Escape'', target = 6\<rparr> = Inr False
   \<and> handleKeyDown demoDom demoOpen \<lparr>key = ''Escape'', target = 6\<rparr> = Inl (TypeError, [])
   \<and> ignoredInput demoDom demoOpen \<lparr>key = ''Tab'', target = 4\<rparr> = Inr False
   \<and> handleKeyDown demoDom demoOpen \<lparr>key = ''Tab'', target = 4\<rparr> = Inl (TypeError, [])"
proof -
  have g1: "ignoredInput demoDom demoOpen \<lparr>key = ''Escape'', target = 6\<rparr> = Inr False"
    by (simp add: ignoredInput_def)
  have g2: "ignoredInput demoDom demoOpen \<lparr>key = ''Tab'', target = 4\<rparr> = Inr False"
    using demo_tags(3) by (simp add: ignoredInput_def)
  have k1: "key \<lparr>key = ''Escape'', target = 6\<rparr> = ''Escape''
            \<or> key \<lparr>key = ''Escape'', target = 6\<rparr> = ''Tab''" by simp
  have k2: "key \<lparr>key = ''Tab'', target = 4\<rparr> = ''Escape''
            \<or> key \<lparr>key = ''Tab'', target = 4\<rparr> = ''Tab''" by simp
  from g1 g2 escape_tab_call_undefined_handleClose [OF g1 k1]
    escape_tab_call_undefined_handleClose [OF g2 k2]
  show ?thesis by blast
qed

text \<open>
  C8. What the code does on ArrowDown when the input guard lets the event through: it
  calls \<^verbatim>\<open>preventDefault\<close> first; closed, it calls \<^verbatim>\<open>onToggle(true, event)\<close> with no
  third argument, so no source tag reaches the host; open, it focuses the item
  \<^verbatim>\<open>getNextFocusedChild(target, 1)\<close> when there is one, and throws what
  \<^verbatim>\<open>getNextFocusedChild\<close> throws.
\<close>

theorem arrow_down_dispatch:
  assumes "ignoredInput d c ev = Inr False" and "key ev = ''ArrowDown''"
  shows "handleKeyDown d c ev =
           (if \<not> show_prop (props c) then Inr [PreventDefault ev, OnToggle True ev None]
            else (case getNextFocusedChild d c (target ev) 1 of
                    Inl e \<Rightarrow> Inl (e, [PreventDefault ev])
                  | Inr next \<Rightarrow> Inr (PreventDefault ev # focusIf d next)))"
  using assms
  by (simp add: handleKeyDown_def keySwitch_def toggleOpen_def andThen_def split: sum.splits)

theorem arrow_down_dispatch_witness:
  "ignoredInput demoDom demoClosed \<lparr>key = ''ArrowDown'', target = 1\<rparr> = Inr False
   \<and> handleKeyDown demoDom demoClosed \<lparr>key = ''ArrowDown'', target = 1\<rparr>
       = Inr [PreventDefault \<lparr>key = ''ArrowDown'', target = 1\<rparr>,
              OnToggle True \<lparr>key = ''ArrowDown'', target = 1\<rparr> None]
   \<and> ignoredInput demoDom demoOpen \<lparr>key = ''ArrowDown'', target = 4\<rparr> = Inr False
   \<and> handleKeyDown demoDom demoOpen \<lparr>key = ''ArrowDown'', target = 4\<rparr>
       = Inr [PreventDefault \<lparr>key = ''ArrowDown'', target = 4\<rparr>, Focus 5]
   \<and> ignoredInput demoDom demoOpen \<lparr>key = ''ArrowDown'', target = 5\<rparr> = Inr False
   \<and> handleKeyDown demoDom demoOpen \<lparr>key = ''ArrowDown'', target = 5\<rparr>
       = Inr [PreventDefault \<lparr>key = ''ArrowDown'', target = 5\<rparr>]"
proof -
  have t1: "\<not> isInputTag (tagName demoDom 1)" and t5: "\<not> isInputTag (tagName demoDom 5)"
    by (simp_all add: demoDom_def isInputTag_def asciiUpper_def)
  have g1: "ignoredInput demoDom demoClosed \<lparr>key = ''ArrowDown'', target = 1\<rparr> = Inr False"
    using t1 by (simp add: ignoredInput_def)
  have g4: "ignoredInput demoDom demoOpen \<lparr>key = ''ArrowDown'', target = 4\<rparr> = Inr False"
    using demo_tags(3) by (simp add: ignoredInput_def)
  have g5: "ignoredInput demoDom demoOpen \<lparr>key = ''ArrowDown'', target = 5\<rparr> = Inr False"
    using t5 by (simp add: ignoredInput_def)
  have n4: "getNextFocusedChild demoDom demoOpen 4 1 = Inr (Some 5)"
    by (simp add: getNextFocusedChild_def demoOpen_menu demoOpen_items Let_def at_def)
  have n5: "getNextFocusedChild demoDom demoOpen 5 1 = Inr None"
    by (simp add: getNextFocusedChild_def demoOpen_menu demoOpen_items Let_def at_def)
  from arrow_down_dispatch [OF g1] demoClosed_facts(1)
  have a: "handleKeyDown demoDom demoClosed \<lparr>key = ''ArrowDown'', target = 1\<rparr>
       = Inr [PreventDefault \<lparr>key = ''ArrowDown'', target = 1\<rparr>,
              OnToggle True \<lparr>key = ''ArrowDown'', target = 1\<rparr> None]" by simp
  from arrow_down_dispatch [OF g4] demoOpen_facts(1) n4
  have b: "handleKeyDown demoDom demoOpen \<lparr>key = ''ArrowDown'', target = 4\<rparr>
       = Inr [PreventDefault \<lparr>key = ''ArrowDown'', target = 4\<rparr>, Focus 5]"
    by (simp add: focusIf_def demo_focusable)
  from arrow_down_dispatch [OF g5] demoOpen_facts(1) n5
  have e: "handleKeyDown demoDom demoOpen \<lparr>key = ''ArrowDown'', target = 5\<rparr>
       = Inr [PreventDefault \<lparr>key = ''ArrowDown'', target = 5\<rparr>]"
    by (simp add: focusIf_def)
  from a b e g1 g4 g5 show ?thesis by blast
qed

section \<open>Toggle requests\<close>

text \<open>
  C2. What the code does on a click of the toggle: \<^verbatim>\<open>handleClick\<close> calls \<^verbatim>\<open>onToggle\<close>
  once, with the negation of the \<^verbatim>\<open>show\<close> prop and the event, and with no third
  argument: the call carries no source tag.
\<close>

theorem toggle_request_passes_two_arguments:
  "handleClick c ev = [OnToggle (\<not> show_prop (props c)) ev None]"
  by (simp add: handleClick_def toggleOpen_def)

section \<open>Unregistered elements\<close>

text \<open>
  C4. What the code does while no menu is registered: \<^verbatim>\<open>getNextFocusedChild\<close> returns
  no element, but \<^verbatim>\<open>handleKeyDown\<close> throws a \<^verbatim>\<open>TypeError\<close> for a text-input target and
  a key that is neither a space nor Escape, and \<^verbatim>\<open>render\<close> throws a \<^verbatim>\<open>TypeError\<close> at
  the focus snapshot of a closing transition, which ends the update cycle.
\<close>

theorem unregistered_menu:
  assumes "menu c = None"
  shows "getNextFocusedChild d c cur off = Inr None
       \<and> (isInputTag (tagName d (target ev)) \<and> key ev \<noteq> '' '' \<and> key ev \<noteq> ''Escape''
            \<longrightarrow> handleKeyDown d c ev = Inl (TypeError, []))
       \<and> (lastShow (state c) \<and> \<not> show_prop (props c) \<longrightarrow> render d c = Inl TypeError)
       \<and> (ctx_show (state c) \<and> \<not> show_prop nextProps
            \<longrightarrow> reactUpdate d nextProps refs c = Inl (TypeError, []))"
  using assms
  by (simp add: getNextFocusedChild_def handleKeyDown_def ignoredInput_def render_def
        reactUpdate_def getDerivedStateFromProps_def Let_def)

theorem unregistered_menu_witness:
  "menu (constructor demoProps) = None
   \<and> getNextFocusedChild demoDom (constructor demoProps) 1 1 = Inr None
   \<and> isInputTag (tagName demoDom 7)
   \<and> handleKeyDown demoDom (constructor demoProps) \<lparr>key = ''ArrowDown'', target = 7\<rparr>
       = Inl (TypeError, [])
   \<and> menu (demoOpen\<lparr>menu := None\<rparr>) = None
   \<and> ctx_show (state (demoOpen\<lparr>menu := None\<rparr>))
   \<and> reactUpdate demoDom (demoProps\<lparr>show_prop := False\<rparr>) [] (demoOpen\<lparr>menu := None\<rparr>)
       = Inl (TypeError, [])"
proof -
  have m1: "menu (constructor demoProps) = None" by (simp add: constructor_def)
  have m2: "menu (demoOpen\<lparr>menu := None\<rparr>) = None" by simp
  have s2: "ctx_show (state (demoOpen\<lparr>menu := None\<rparr>))" using demoOpen_facts(2) by simp
  note a = unregistered_menu
    [OF m1, of demoDom 1 1 "\<lparr>key = ''ArrowDown'', target = 7\<rparr>"
       "demoProps\<lparr>show_prop := False\<rparr>" "[]"]
  note b = unregistered_menu
    [OF m2, of demoDom 1 1 "\<lparr>key = ''ArrowDown'', target = 7\<rparr>"
       "demoProps\<lparr>show_prop := False\<rparr>" "[]"]
  from a demo_tags(2)
  have a': "getNextFocusedChild demoDom (constructor demoProps) 1 1 = Inr None"
    "handleKeyDown demoDom (constructor demoProps) \<lparr>key = ''ArrowDown'', target = 7\<rparr>
       = Inl (TypeError, [])" by simp_all
  from b s2
  have b': "reactUpdate demoDom (demoProps\<lparr>show_prop := False\<rparr>) [] (demoOpen\<lparr>menu := None\<rparr>)
       = Inl (TypeError, [])" by simp
  from a' b' m1 m2 s2 demo_tags(2) show ?thesis by blast
qed

end
